theory Spec2Isabelle
  imports
    Main
    "HOL-Library.Char_ord"
    "HOL-Library.List_Lexorder"
    "HOL-Library.Multiset"
begin

section \<open>Text: characters, classes and the string methods the scripts use\<close>

text \<open>
  The scripts work on Python \<open>str\<close> values. A \<open>string\<close> here is the list of
  code points of such a value, for text whose code points are all below 256; the order
  on strings (\<open>Char_ord\<close>, \<open>List_Lexorder\<close>) is then Python's comparison of \<open>str\<close>,
  lexicographic by code point.

  \<open>isspace\<close> is \<open>str.isspace\<close> on one character, which is also what \<open>\s\<close> matches in
  a \<open>str\<close> pattern; \<open>isword\<close> is what \<open>\w\<close> matches and \<open>isdecimal\<close> what \<open>\d\<close>
  matches. On code points below 128 they are the ASCII classes; above, Python counts
  the Latin-1 letters and numerals as word characters and NEL and NBSP as whitespace.
\<close>

definition isspace :: "char \<Rightarrow> bool" where
  "isspace c =
     (let n = (of_char c :: nat)
      in (9 \<le> n \<and> n \<le> 13) \<or> (28 \<le> n \<and> n \<le> 32) \<or> n = 133 \<or> n = 160)"

definition isdecimal :: "char \<Rightarrow> bool" where
  "isdecimal c = (let n = (of_char c :: nat) in 48 \<le> n \<and> n \<le> 57)"

definition isword :: "char \<Rightarrow> bool" where
  "isword c =
     (let n = (of_char c :: nat)
      in (48 \<le> n \<and> n \<le> 57) \<or> (65 \<le> n \<and> n \<le> 90) \<or> n = 95 \<or> (97 \<le> n \<and> n \<le> 122)
         \<or> n = 170 \<or> n = 178 \<or> n = 179 \<or> n = 181 \<or> n = 185 \<or> n = 186
         \<or> (188 \<le> n \<and> n \<le> 190) \<or> (192 \<le> n \<and> n \<le> 214)
         \<or> (216 \<le> n \<and> n \<le> 246) \<or> (248 \<le> n \<and> n \<le> 255))"

text \<open>\<open>line.strip()\<close>: whitespace removed at both ends.\<close>

definition strip :: "string \<Rightarrow> string" where
  "strip s = rev (dropWhile isspace (rev (dropWhile isspace s)))"

text \<open>\<open>s.startswith(p)\<close>.\<close>

definition startswith :: "string \<Rightarrow> string \<Rightarrow> bool" where
  "startswith s p = (take (length p) s = p)"

text \<open>
  \<open>int(s)\<close> on a string of decimal digits, and \<open>str(n)\<close> as an f-string renders an
  integer. Python's integers are unbounded, but \<open>int\<close> refuses a string of more
  digits than the interpreter's limit, 4300 unless it is configured otherwise, and raises
  \<open>ValueError\<close> with the message below; \<open>py_int\<close> returns that message on the left.
  Leading zeros count as digits.
\<close>

definition digit_value :: "char \<Rightarrow> int" where
  "digit_value c = int (of_char c) - 48"

definition int_of_str :: "string \<Rightarrow> int" where
  "int_of_str ds = foldl (\<lambda>acc c. 10 * acc + digit_value c) 0 ds"

definition digit_char :: "nat \<Rightarrow> char" where
  "digit_char d = char_of (48 + d)"

function str_nat :: "nat \<Rightarrow> string" where
  "str_nat n = (if n < 10 then [digit_char n] else str_nat (n div 10) @ [digit_char (n mod 10)])"
  by pat_completeness auto
termination
  by (relation "measure (\<lambda>n. n)") auto

declare str_nat.simps [simp del]

definition str_int :: "int \<Rightarrow> string" where
  "str_int i = (if i < 0 then CHR ''-'' # str_nat (nat (- i)) else str_nat (nat i))"

definition int_max_str_digits :: nat where
  "int_max_str_digits = 4300"

definition int_limit_message :: "nat \<Rightarrow> string" where
  "int_limit_message n =
     ''Exceeds the limit ('' @ str_nat int_max_str_digits @
     '' digits) for integer string conversion: value has '' @ str_nat n @
     '' digits; use sys.set_int_max_str_digits() to increase the limit''"

definition py_int :: "string \<Rightarrow> string + int" where
  "py_int ds =
     (if int_max_str_digits < length ds then Inl (int_limit_message (length ds))
      else Inr (int_of_str ds))"

text \<open>\<open>sep.join(xs)\<close>.\<close>

fun join :: "string \<Rightarrow> string list \<Rightarrow> string" where
  "join sep [] = []"
| "join sep [x] = x"
| "join sep (x # y # ys) = x @ sep @ join sep (y # ys)"

section \<open>lib/syscall.py: generate\_syscall\_table\<close>

text \<open>
  \<open>pattern.match(line)\<close> for the pattern \<^verbatim>\<open>^#define __NR_(\w+)\s+(\d+)\<close>: the match is
  anchored at the start of the line only. After the literal prefix each of the three
  repetitions is greedy; a shorter repetition never helps, as the class that follows
  is disjoint from the class repeated, so the greedy run is the only candidate. The
  result holds the two groups; whatever follows the digits is not looked at.
\<close>

definition pattern_match :: "string \<Rightarrow> (string \<times> string) option" where
  "pattern_match line =
     (if startswith line ''#define __NR_'' then
        (let rest = drop (length ''#define __NR_'') line;
             name = takeWhile isword rest;
             rest1 = dropWhile isword rest;
             rest2 = dropWhile isspace rest1;
             digits = takeWhile isdecimal rest2
         in if name = [] \<or> takeWhile isspace rest1 = [] \<or> digits = [] then None
            else Some (name, digits))
      else None)"

text \<open>
  The state of the loop over the lines: the list \<open>syscalls\<close> the source appends to, and
  a counter of the calls of \<open>pattern.match\<close> made so far, which the source does not
  hold; it records where the pattern is tested. The body of the loop either raises (the
  \<open>ValueError\<close> of \<open>int\<close>, on the left with its message) or returns the new state.
\<close>

record scan =
  syscalls :: "(string \<times> int) list"
  match_calls :: nat

definition loop_body :: "scan \<Rightarrow> string \<Rightarrow> string + scan" where
  "loop_body st raw =
     (let line = strip raw in
      if startswith line ''#define __NR_'' then
        (let st' = st\<lparr>match_calls := Suc (match_calls st)\<rparr> in
         case pattern_match line of
           Some (name, digits) \<Rightarrow>
             (case py_int digits of
                Inl msg \<Rightarrow> Inl msg
              | Inr num \<Rightarrow> Inr (st'\<lparr>syscalls := syscalls st' @ [(name, num)]\<rparr>))
         | None \<Rightarrow> Inr st')
      else Inr st)"

text \<open>The loop: an exception raised by the body ends it.\<close>

fun scan_from :: "scan \<Rightarrow> string list \<Rightarrow> string + scan" where
  "scan_from st [] = Inr st"
| "scan_from st (raw # ls) =
     (case loop_body st raw of Inl msg \<Rightarrow> Inl msg | Inr st' \<Rightarrow> scan_from st' ls)"

definition scan_lines :: "string list \<Rightarrow> string + scan" where
  "scan_lines ls = scan_from \<lparr>syscalls = [], match_calls = 0\<rparr> ls"

text \<open>
  What one line does on its own, the loop body run on the empty list: the entries it
  adds, and the message of the exception it raises, if it raises.
\<close>

definition line_entries :: "string \<Rightarrow> (string \<times> int) list" where
  "line_entries raw =
     (case loop_body \<lparr>syscalls = [], match_calls = 0\<rparr> raw of
        Inl msg \<Rightarrow> [] | Inr st \<Rightarrow> syscalls st)"

definition line_error :: "string \<Rightarrow> string option" where
  "line_error raw =
     (case loop_body \<lparr>syscalls = [], match_calls = 0\<rparr> raw of
        Inl msg \<Rightarrow> Some msg | Inr st \<Rightarrow> None)"

text \<open>\<open>syscalls.sort(key=lambda x: x[0])\<close>: Python's sort is stable.\<close>

definition sort_syscalls :: "(string \<times> int) list \<Rightarrow> (string \<times> int) list" where
  "sort_syscalls xs = sort_key fst xs"

text \<open>The f-string of line 26, and the join of line 27.\<close>

definition render_entry :: "string \<times> int \<Rightarrow> string" where
  \<open>render_entry e = ''("'' @ fst e @ ''", '' @ str_int (snd e) @ ''),''\<close>

definition serialize :: "(string \<times> int) list \<Rightarrow> string" where
  "serialize xs = join '' '' (map render_entry (sort_syscalls xs))"

text \<open>
  What \<open>open(file_path, "r")\<close> and the iteration over the file can do: the path does
  not exist (\<open>FileNotFoundError\<close>), \<open>open\<close> raises another exception, or the file
  opens and yields its lines, each with its line terminator, and after them possibly
  raises an exception (a read or decoding error). Exceptions carry their message. The
  lines that were read are processed before the read fails, so an exception of the loop
  body comes first.
\<close>

datatype header_file = Missing | Unopenable string | Readable "string list" "string option"

datatype py_exception = RuntimeError string | KeyError string | OSError string

definition generate_syscall_table :: "(string \<Rightarrow> header_file) \<Rightarrow> string \<Rightarrow> py_exception + string" where
  "generate_syscall_table fs file_path =
     (case fs file_path of
        Missing \<Rightarrow> Inl (RuntimeError (''Header file not found: '' @ file_path))
      | Unopenable msg \<Rightarrow> Inl (RuntimeError (''File processing failed: '' @ msg))
      | Readable ls failure \<Rightarrow>
          (case scan_lines ls of
             Inl msg \<Rightarrow> Inl (RuntimeError (''File processing failed: '' @ msg))
           | Inr st \<Rightarrow>
               (case failure of
                  Some msg \<Rightarrow> Inl (RuntimeError (''File processing failed: '' @ msg))
                | None \<Rightarrow> Inr (serialize (syscalls st)))))"

section \<open>lib/syscall.py: generate\_rust\_code\<close>

text \<open>
  The world the emission acts on: the files on disk, by path, and the lines printed.
  The environment decides what the code cannot. Writing the file either succeeds, or
  \<open>open(output_path, "w")\<close> raises an \<open>IOError\<close> and the disk is as it was, or the
  file is opened, which creates or truncates it, and the write raises an \<open>IOError\<close>
  after some prefix of the text (possibly none of it) has reached the file.
  \<open>subprocess.run\<close> either fails to start the program, which raises an \<open>OSError\<close>,
  or the program exits with a return code and leaves the files in some state of its
  choosing.
\<close>

record world =
  files :: "string \<rightharpoonup> string"
  stdout :: "string list"

datatype write_result = Written | OpenFailed string | WriteFailed string nat

datatype proc_result = Exited int "string \<rightharpoonup> string" | NotStarted string

record env =
  read_file :: "string \<Rightarrow> header_file"
  mkdir_error :: "string \<Rightarrow> string option"
  write_file :: "string \<Rightarrow> string \<Rightarrow> write_result"
  rustfmt :: "string \<Rightarrow> (string \<rightharpoonup> string) \<Rightarrow> proc_result"

text \<open>The template of lines 38 to 44, with the table spliced in.\<close>

definition rust_code :: "string \<Rightarrow> string" where
  \<open>rust_code table =
     ''use std::collections::HashMap;\<newline>'' @
     ''pub(crate) fn make_syscall_table() -> HashMap<&'' @ [CHR 0x27] @ ''static str, i64> {\<newline>'' @
     ''    vec![\<newline>'' @
     ''        '' @ table @ ''\<newline>'' @
     ''    ].into_iter().collect()\<newline>'' @
     ''}\<newline>''\<close>

text \<open>
  \<open>IOError\<close> is \<open>OSError\<close>, so the second handler also catches the failure to start
  the formatter.
\<close>

definition run_formatter :: "env \<Rightarrow> string \<Rightarrow> world \<Rightarrow> (py_exception + unit) \<times> world" where
  "run_formatter e output_path w =
     (case rustfmt e output_path (files w) of
        NotStarted msg \<Rightarrow> (Inl (RuntimeError (''File write error: '' @ msg)), w)
      | Exited rc fs \<Rightarrow>
          if rc \<noteq> 0 then (Inl (RuntimeError ''rustfmt formatting failed''), w\<lparr>files := fs\<rparr>)
          else (Inr (),
                w\<lparr>files := fs, stdout := stdout w @ [''Generation succeeded: '' @ output_path]\<rparr>))"

definition generate_rust_code ::
  "env \<Rightarrow> string \<Rightarrow> string \<Rightarrow> world \<Rightarrow> (py_exception + unit) \<times> world" where
  "generate_rust_code e table output_path w =
     (let w1 = w\<lparr>stdout := stdout w @ [''Generating to: '' @ output_path]\<rparr>;
          code = rust_code table
      in case write_file e output_path code of
           OpenFailed msg \<Rightarrow> (Inl (RuntimeError (''File write error: '' @ msg)), w1)
         | WriteFailed msg n \<Rightarrow>
             (Inl (RuntimeError (''File write error: '' @ msg)),
              w1\<lparr>files := (files w1)(output_path \<mapsto> take n code)\<rparr>)
         | Written \<Rightarrow> run_formatter e output_path (w1\<lparr>files := (files w1)(output_path \<mapsto> code)\<rparr>))"

section \<open>rustvmm\_gen.py: generate\_syscall\_command\<close>

definition MAP_RUST_ARCH :: "(string \<times> string) list" where
  "MAP_RUST_ARCH = [(''arm64'', ''aarch64''), (''x86_64'', ''x86_64''), (''riscv'', ''riscv64'')]"

text \<open>\<open>os.path.dirname\<close> and \<open>os.path.join\<close> (of two arguments) on POSIX paths.\<close>

definition os_path_dirname :: "string \<Rightarrow> string" where
  "os_path_dirname p =
     (let head = rev (dropWhile (\<lambda>c. c \<noteq> CHR ''/'') (rev p))
      in if head \<noteq> [] \<and> head \<noteq> replicate (length head) CHR ''/''
         then rev (dropWhile (\<lambda>c. c = CHR ''/'') (rev head)) else head)"

definition os_path_join :: "string \<Rightarrow> string \<Rightarrow> string" where
  "os_path_join a b =
     (if startswith b ''/'' then b
      else if a = [] \<or> last a = CHR ''/'' then a @ b
      else a @ ''/'' @ b)"

text \<open>
  \<open>args.output_path / name\<close>, on the string form of the directory (a \<open>Path\<close> is kept
  normalised: \<open>.\<close> for the empty path, a final slash on a root only) and for a
  \<open>name\<close> that is one plain component, as every value of \<open>MAP_RUST_ARCH\<close> followed
  by \<open>.rs\<close> is.
\<close>

definition path_div :: "string \<Rightarrow> string \<Rightarrow> string" where
  "path_div dir name =
     (if dir = ''.'' then name
      else if dir \<noteq> [] \<and> last dir = CHR ''/'' then dir @ name
      else dir @ ''/'' @ name)"

text \<open>
  The command after \<open>prepare_command\<close> has returned \<open>src_dir\<close>; the functions that
  \<open>prepare_command\<close> calls are not part of these sources, so its result is an argument
  here. An exception that no handler catches ends the command.
\<close>

definition generate_syscall_command ::
  "env \<Rightarrow> string \<Rightarrow> string \<Rightarrow> string \<Rightarrow> world \<Rightarrow> (py_exception + unit) \<times> world" where
  "generate_syscall_command e src_dir arch output_path w =
     (let header_path =
            os_path_join (os_path_dirname src_dir) (arch @ ''_headers/include/asm/unistd_64.h'')
      in case generate_syscall_table (read_file e) header_path of
           Inl ex \<Rightarrow> (Inl ex, w)
         | Inr table \<Rightarrow>
             (case mkdir_error e output_path of
                Some msg \<Rightarrow> (Inl (OSError msg), w)
              | None \<Rightarrow>
                  (case map_of MAP_RUST_ARCH arch of
                     None \<Rightarrow> (Inl (KeyError arch), w)
                   | Some rust_arch \<Rightarrow>
                       generate_rust_code e table (path_div output_path (rust_arch @ ''.rs'')) w)))"

section \<open>Properties of the pattern\<close>










section \<open>Properties of the loop over the lines\<close>

lemma loop_body_alt:
  "loop_body st raw =
     (case line_error raw of
        Some msg \<Rightarrow> Inl msg
      | None \<Rightarrow>
          Inr (st\<lparr>syscalls := syscalls st @ line_entries raw,
                  match_calls := match_calls st +
                    (if startswith (strip raw) ''#define __NR_'' then 1 else 0)\<rparr>))"
  by (simp add: loop_body_def line_error_def line_entries_def Let_def
      split: option.split sum.split prod.split)

lemma scan_from_ok:
  "list_all (\<lambda>raw. line_error raw = None) ls \<Longrightarrow>
     scan_from st ls =
       Inr (st\<lparr>syscalls := syscalls st @ concat (map line_entries ls),
               match_calls := match_calls st +
                 length (filter (\<lambda>raw. startswith (strip raw) ''#define __NR_'') ls)\<rparr>)"
proof (induction ls arbitrary: st)
  case Nil
  then show ?case by simp
next
  case (Cons raw ls)
  from Cons.prems have e: "line_error raw = None"
    and r: "list_all (\<lambda>raw. line_error raw = None) ls"
    by simp_all
  show ?case
    by (simp add: loop_body_alt [of st raw] e Cons.IH [OF r])
qed

lemma scan_from_InrD:
  "scan_from st ls = Inr st' \<Longrightarrow> list_all (\<lambda>raw. line_error raw = None) ls"
proof (induction ls arbitrary: st)
  case Nil
  then show ?case by simp
next
  case (Cons raw ls)
  then show ?case
    by (cases "line_error raw") (auto simp add: loop_body_alt [of st raw])
qed

lemma scan_lines_ok:
  "list_all (\<lambda>raw. line_error raw = None) ls \<Longrightarrow>
     scan_lines ls =
       Inr \<lparr>syscalls = concat (map line_entries ls),
            match_calls = length (filter (\<lambda>raw. startswith (strip raw) ''#define __NR_'') ls)\<rparr>"
  by (simp add: scan_lines_def scan_from_ok)

lemma scan_lines_InrD:
  assumes "scan_lines ls = Inr st"
  shows "list_all (\<lambda>raw. line_error raw = None) ls"
    and "syscalls st = concat (map line_entries ls)"
    and "match_calls st = length (filter (\<lambda>raw. startswith (strip raw) ''#define __NR_'') ls)"
proof -
  show ok: "list_all (\<lambda>raw. line_error raw = None) ls"
    using assms unfolding scan_lines_def by (rule scan_from_InrD)
  from scan_lines_ok [OF ok] assms
  show "syscalls st = concat (map line_entries ls)"
    and "match_calls st = length (filter (\<lambda>raw. startswith (strip raw) ''#define __NR_'') ls)"
    by auto
qed

lemma line_unprefixed:
  assumes "\<not> startswith (strip raw) ''#define __NR_''"
  shows "line_entries raw = []" and "line_error raw = None" and "loop_body st raw = Inr st"
  using assms by (simp_all add: line_entries_def line_error_def loop_body_def)

lemma mset_concat_map_cong:
  assumes "mset ls' = mset ls"
  shows "mset (concat (map f ls')) = mset (concat (map f ls))"
proof -
  have "mset (concat (map f xs)) = sum_mset (image_mset (\<lambda>l. mset (f l)) (mset xs))" for xs
    by (induction xs) simp_all
  with assms show ?thesis by simp
qed

lemma sort_syscalls_perm:
  assumes "mset xs' = mset xs" and "distinct (map fst xs)"
  shows "sort_syscalls xs' = sort_syscalls xs"
proof -
  have "mset (map fst xs') = mset (map fst xs)" using assms(1) by (metis mset_map)
  then have "distinct (map fst xs')" using assms(2) by (metis mset_eq_imp_distinct_iff)
  then have inj: "inj_on fst (set xs')" by (simp add: distinct_map)
  have "sort_key fst xs' = sort_key fst xs"
    by (rule sort_key_inj_key_eq) (simp_all add: assms(1) inj)
  then show ?thesis by (simp add: sort_syscalls_def)
qed

lemma serialize_sorted: "serialize (sort_syscalls xs) = serialize xs"
  by (simp add: serialize_def sort_syscalls_def sort_key_id_if_sorted)

lemma generate_syscall_table_Readable:
  assumes "fs p = Readable ls None" and "scan_lines ls = Inr st"
  shows "generate_syscall_table fs p = Inr (serialize (syscalls st))"
  using assms by (simp add: generate_syscall_table_def)

lemma scan_from_append:
  "scan_from st (xs @ ys) =
     (case scan_from st xs of Inl msg \<Rightarrow> Inl msg | Inr st' \<Rightarrow> scan_from st' ys)"
  by (induction xs arbitrary: st) (simp_all split: sum.split)





section \<open>Properties of the rendering\<close>

lemma join_Cons: "join sep (x # xs) = x @ concat (map (\<lambda>y. sep @ y) xs)"
  by (induction xs arbitrary: x) simp_all

lemma digit_char_decimal: "d < 10 \<Longrightarrow> isdecimal (digit_char d)"
  by (simp add: isdecimal_def digit_char_def Let_def)

lemma digit_value_digit_char: "d < 10 \<Longrightarrow> digit_value (digit_char d) = int d"
  by (simp add: digit_value_def digit_char_def)

lemma int_of_str_snoc: "int_of_str (ds @ [c]) = 10 * int_of_str ds + digit_value c"
  by (simp add: int_of_str_def)

lemma str_nat_decimal: "list_all isdecimal (str_nat n)"
proof (induction n rule: str_nat.induct)
  case (1 n)
  show ?case
  proof (cases "n < 10")
    case True
    then show ?thesis by (subst str_nat.simps) (simp add: digit_char_decimal)
  next
    case False
    with 1 have "list_all isdecimal (str_nat (n div 10))" by simp
    with False show ?thesis by (subst str_nat.simps) (simp add: digit_char_decimal)
  qed
qed

lemma int_of_str_str_nat: "int_of_str (str_nat n) = int n"
proof (induction n rule: str_nat.induct)
  case (1 n)
  show ?case
  proof (cases "n < 10")
    case True
    then show ?thesis
      by (subst str_nat.simps) (simp add: int_of_str_def digit_value_digit_char)
  next
    case False
    with 1 have ih: "int_of_str (str_nat (n div 10)) = int (n div 10)" by simp
    have "int_of_str (str_nat n) = 10 * int (n div 10) + int (n mod 10)"
      using False by (subst str_nat.simps) (simp add: int_of_str_snoc ih digit_value_digit_char)
    also have "\<dots> = int n" by presburger
    finally show ?thesis .
  qed
qed

lemma str_nat_not_Nil: "str_nat n \<noteq> []"
  by (subst str_nat.simps) simp

lemma hd_str_nat_Suc: "hd (str_nat (Suc n)) \<noteq> CHR ''0''"
proof (induction "Suc n" arbitrary: n rule: str_nat.induct)
  case 1
  show ?case
  proof (cases "Suc n < 10")
    case True
    have v: "digit_value (digit_char (Suc n)) = int (Suc n)"
      using True by (rule digit_value_digit_char)
    have z: "digit_value CHR ''0'' = 0"
      by (simp add: digit_value_def)
    have "digit_char (Suc n) \<noteq> CHR ''0''"
    proof
      assume "digit_char (Suc n) = CHR ''0''"
      then have "digit_value (digit_char (Suc n)) = digit_value CHR ''0''" by (rule arg_cong)
      then show False unfolding v z by simp
    qed
    with True show ?thesis by (subst str_nat.simps) simp
  next
    case False
    then obtain m where m: "Suc n div 10 = Suc m"
      by (cases "Suc n div 10") auto
    with 1 False have "hd (str_nat (Suc m)) \<noteq> CHR ''0''" by simp
    with False m show ?thesis
      by (subst str_nat.simps) (simp add: str_nat_not_Nil)
  qed
qed

section \<open>Properties of the emission and of the command\<close>

lemma generate_rust_code_Written:
  assumes "write_file e p (rust_code t) = Written"
  shows "generate_rust_code e t p w =
    run_formatter e p
      (w\<lparr>stdout := stdout w @ [''Generating to: '' @ p],
         files := (files w)(p \<mapsto> rust_code t)\<rparr>)"
  using assms by (simp add: generate_rust_code_def Let_def)

lemma generate_syscall_command_mapped:
  assumes "map_of MAP_RUST_ARCH arch = Some rust_arch"
    and "arch @ ''_headers/include/asm/unistd_64.h'' = header"
    and "rust_arch @ ''.rs'' = name"
  shows "generate_syscall_command e src arch out w =
       (case generate_syscall_table (read_file e) (os_path_join (os_path_dirname src) header) of
          Inl ex \<Rightarrow> (Inl ex, w)
        | Inr table \<Rightarrow>
            (case mkdir_error e out of
               Some msg \<Rightarrow> (Inl (OSError msg), w)
             | None \<Rightarrow> generate_rust_code e table (path_div out name) w))"
  unfolding generate_syscall_command_def Let_def assms(1) assms(2) option.case
  using assms(3) by (simp split: sum.split option.split)

lemma path_div_suffix: "\<exists>d. path_div out name = d @ name"
proof (cases "out = ''.''")
  case True
  then have "path_div out name = [] @ name" by (simp add: path_div_def)
  then show ?thesis by blast
next
  case False
  show ?thesis
  proof (cases "out \<noteq> [] \<and> last out = CHR ''/''")
    case True
    with False have "path_div out name = out @ name" by (simp add: path_div_def)
    then show ?thesis by blast
  next
    case False
    with \<open>out \<noteq> ''.''\<close> have "path_div out name = (out @ ''/'') @ name"
      by (simp add: path_div_def)
    then show ?thesis by blast
  qed
qed

section \<open>The claims\<close>

text \<open>
  C1. A header of exactly the three lines \<open>#define __NR_read 0\<close>,
  \<open>#define __NR_write 1\<close> and \<open>#define __NR_open 2\<close> parses to the entries read,
  write, open, which sort to the table \<open>[("open", 2), ("read", 0), ("write", 1)]\<close>, in
  alphabetical order, and \<open>generate_syscall_table\<close> returns it rendered as
  \<open>("open", 2), ("read", 0), ("write", 1),\<close>.
\<close>

theorem three_line_header_table:
  \<open>scan_lines [''#define __NR_read 0\<newline>'', ''#define __NR_write 1\<newline>'', ''#define __NR_open 2\<newline>'']
     = Inr \<lparr>syscalls = [(''read'', 0), (''write'', 1), (''open'', 2)], match_calls = 3\<rparr>
   \<and> sort_syscalls [(''read'', 0), (''write'', 1), (''open'', 2)]
     = [(''open'', 2), (''read'', 0), (''write'', 1)]
   \<and> generate_syscall_table
       (\<lambda>p. Readable
          [''#define __NR_read 0\<newline>'', ''#define __NR_write 1\<newline>'', ''#define __NR_open 2\<newline>'']
          None)
       ''unistd_64.h''
     = Inr ''("open", 2), ("read", 0), ("write", 1),''\<close>
  by code_simp




text \<open>
  C3. For every header that is read and parsed without failure, what
  \<open>generate_syscall_table\<close> returns is the rendering of a list \<open>ys\<close> that is ordered by
  name (in the order of strings by code point, so case matters), that has exactly the
  entries the lines gave, each as often as the lines gave it (nothing is dropped or
  merged), and in which the entries of one name keep the order they were parsed in (the
  sort is stable). So a name defined twice has both its entries in the output, in the
  order of the file.
\<close>

theorem sorted_before_rendering:
  assumes "fs path = Readable ls None" and "scan_lines ls = Inr st"
  shows "\<exists>ys. generate_syscall_table fs path = Inr (join '' '' (map render_entry ys))
    \<and> sorted (map fst ys)
    \<and> mset ys = mset (concat (map line_entries ls))
    \<and> length ys = length (concat (map line_entries ls))
    \<and> (\<forall>k. filter (\<lambda>e. fst e = k) ys = filter (\<lambda>e. fst e = k) (concat (map line_entries ls)))"
proof -
  have s: "syscalls st = concat (map line_entries ls)"
    using assms(2) by (rule scan_lines_InrD)
  have g: "generate_syscall_table fs path = Inr (join '' '' (map render_entry (sort_syscalls (syscalls st))))"
    using assms by (simp add: generate_syscall_table_def serialize_def)
  have a: "sorted (map fst (sort_syscalls (syscalls st)))" by (simp add: sort_syscalls_def)
  have b: "mset (sort_syscalls (syscalls st)) = mset (syscalls st)" by (simp add: sort_syscalls_def)
  have c: "length (sort_syscalls (syscalls st)) = length (syscalls st)" by (simp add: sort_syscalls_def)
  have d: "\<forall>k. filter (\<lambda>e. fst e = k) (sort_syscalls (syscalls st)) = filter (\<lambda>e. fst e = k) (syscalls st)"
    by (simp add: sort_syscalls_def sort_key_stable)
  from g a b c d show ?thesis unfolding s by blast
qed

theorem sorted_before_rendering_witness:
  \<open>scan_lines [''#define __NR_read 5\<newline>'', ''#define __NR_open 2\<newline>'',
               ''#define __NR_read 0\<newline>'', ''#define __NR_read 5\<newline>'']
     = Inr \<lparr>syscalls = [(''read'', 5), (''open'', 2), (''read'', 0), (''read'', 5)], match_calls = 4\<rparr>
   \<and> (\<exists>ys. generate_syscall_table
          (\<lambda>p. Readable [''#define __NR_read 5\<newline>'', ''#define __NR_open 2\<newline>'',
                          ''#define __NR_read 0\<newline>'', ''#define __NR_read 5\<newline>''] None)
          ''unistd_64.h'' = Inr (join '' '' (map render_entry ys))
        \<and> sorted (map fst ys)
        \<and> mset ys = mset (concat (map line_entries
            [''#define __NR_read 5\<newline>'', ''#define __NR_open 2\<newline>'',
             ''#define __NR_read 0\<newline>'', ''#define __NR_read 5\<newline>'']))
        \<and> length ys = length (concat (map line_entries
            [''#define __NR_read 5\<newline>'', ''#define __NR_open 2\<newline>'',
             ''#define __NR_read 0\<newline>'', ''#define __NR_read 5\<newline>'']))
        \<and> (\<forall>k. filter (\<lambda>e. fst e = k) ys = filter (\<lambda>e. fst e = k) (concat (map line_entries
            [''#define __NR_read 5\<newline>'', ''#define __NR_open 2\<newline>'',
             ''#define __NR_read 0\<newline>'', ''#define __NR_read 5\<newline>'']))))
   \<and> generate_syscall_table
          (\<lambda>p. Readable [''#define __NR_read 5\<newline>'', ''#define __NR_open 2\<newline>'',
                          ''#define __NR_read 0\<newline>'', ''#define __NR_read 5\<newline>''] None)
          ''unistd_64.h''
       = Inr ''("open", 2), ("read", 5), ("read", 0), ("read", 5),''\<close>
proof -
  have h: \<open>scan_lines [''#define __NR_read 5\<newline>'', ''#define __NR_open 2\<newline>'',
               ''#define __NR_read 0\<newline>'', ''#define __NR_read 5\<newline>'']
     = Inr \<lparr>syscalls = [(''read'', 5), (''open'', 2), (''read'', 0), (''read'', 5)], match_calls = 4\<rparr>\<close>
    by code_simp
  have c: \<open>generate_syscall_table
          (\<lambda>p. Readable [''#define __NR_read 5\<newline>'', ''#define __NR_open 2\<newline>'',
                          ''#define __NR_read 0\<newline>'', ''#define __NR_read 5\<newline>''] None)
          ''unistd_64.h''
       = Inr ''("open", 2), ("read", 5), ("read", 0), ("read", 5),''\<close>
    by code_simp
  note t = sorted_before_rendering [of
      "\<lambda>p. Readable [''#define __NR_read 5\<newline>'', ''#define __NR_open 2\<newline>'',
                      ''#define __NR_read 0\<newline>'', ''#define __NR_read 5\<newline>''] None"
      "''unistd_64.h''"
      "[''#define __NR_read 5\<newline>'', ''#define __NR_open 2\<newline>'',
        ''#define __NR_read 0\<newline>'', ''#define __NR_read 5\<newline>'']"
      "\<lparr>syscalls = [(''read'', 5), (''open'', 2), (''read'', 0), (''read'', 5)], match_calls = 4\<rparr>",
      OF refl h]
  from h t c show ?thesis by (intro conjI)
qed

text \<open>
  C4. The serializer renders an entry as an opening parenthesis, the name between double
  quotes, a comma and a space, the number in decimal without quotes, a closing
  parenthesis and a comma, which is the separator that trails every literal. The
  rendered entries of the sorted table are joined by one space, and the empty table
  gives the empty string, as does a header with no lines. The number is written as
  \<open>str\<close> writes an integer: decimal digits only, a minus sign before them for a
  negative number, no leading zero on a positive number, and reading the digits back
  gives the number.
\<close>

theorem serialize_format:
  \<open>serialize [] = []
   \<and> generate_syscall_table (\<lambda>p. Readable [] None) path = Inr []
   \<and> serialize xs =
       (case sort_syscalls xs of
          [] \<Rightarrow> []
        | e # es \<Rightarrow> render_entry e @ concat (map (\<lambda>x. '' '' @ render_entry x) es))
   \<and> render_entry (name, num) = ''("'' @ name @ ''", '' @ str_int num @ ''),''
   \<and> str_int (int n) = str_nat n
   \<and> str_int (- int (Suc n)) = CHR ''-'' # str_nat (Suc n)
   \<and> list_all isdecimal (str_nat n)
   \<and> int_of_str (str_nat n) = int n
   \<and> hd (str_nat (Suc n)) \<noteq> CHR ''0''
   \<and> serialize [(''write'', 1), (''exit_group'', 231), (''read'', 0)]
       = ''("exit_group", 231), ("read", 0), ("write", 1),''\<close>
proof -
  have a: "serialize [] = []"
    by (simp add: serialize_def sort_syscalls_def)
  have b: "generate_syscall_table (\<lambda>p. Readable [] None) path = Inr []"
    by (simp add: generate_syscall_table_def scan_lines_def a)
  have c: "serialize xs =
       (case sort_syscalls xs of
          [] \<Rightarrow> []
        | e # es \<Rightarrow> render_entry e @ concat (map (\<lambda>x. '' '' @ render_entry x) es))"
    by (cases "sort_syscalls xs") (simp_all add: serialize_def join_Cons comp_def)
  have d: \<open>render_entry (name, num) = ''("'' @ name @ ''", '' @ str_int num @ ''),''\<close>
    by (simp add: render_entry_def)
  have e: "str_int (int n) = str_nat n"
    by (simp add: str_int_def)
  have "nat (int n + 1) = Suc n"
    by arith
  then have f: "str_int (- int (Suc n)) = CHR ''-'' # str_nat (Suc n)"
    by (simp add: str_int_def)
  have g: \<open>serialize [(''write'', 1), (''exit_group'', 231), (''read'', 0)]
       = ''("exit_group", 231), ("read", 0), ("write", 1),''\<close>
    by code_simp
  from a b c d e f str_nat_decimal [of n] int_of_str_str_nat [of n] hd_str_nat_Suc [of n] g
  show ?thesis by (intro conjI)
qed


text \<open>
  C6. If the file is written and the formatter then exits with a non-zero code,
  \<open>generate_rust_code\<close> fails with the error \<open>rustfmt formatting failed\<close>. The
  formatter was given a disk on which the output path holds the unformatted code, and
  the disk after the call is the one the formatter left: the code removes or restores
  nothing, so with a formatter that leaves the files alone the unformatted file is
  still there. If the file cannot be opened, the error is \<open>File write error\<close> with
  the cause and the disk is as before; if the write fails after the file is opened, the
  error is the same and the file holds the part that was written. The two errors are
  both a \<open>RuntimeError\<close> and differ by their message.
\<close>

theorem formatter_failure_keeps_file:
  assumes "write_file e p (rust_code t) = Written"
    and "rustfmt e p ((files w)(p \<mapsto> rust_code t)) = Exited rc fs"
    and "rc \<noteq> 0"
  shows "generate_rust_code e t p w =
      (Inl (RuntimeError ''rustfmt formatting failed''),
       w\<lparr>stdout := stdout w @ [''Generating to: '' @ p], files := fs\<rparr>)
    \<and> ((files w)(p \<mapsto> rust_code t)) p = Some (rust_code t)
    \<and> generate_rust_code (e\<lparr>rustfmt := \<lambda>q fs'. Exited rc fs'\<rparr>) t p w =
      (Inl (RuntimeError ''rustfmt formatting failed''),
       w\<lparr>stdout := stdout w @ [''Generating to: '' @ p],
         files := (files w)(p \<mapsto> rust_code t)\<rparr>)
    \<and> generate_rust_code (e\<lparr>write_file := \<lambda>q c. OpenFailed msg\<rparr>) t p w =
      (Inl (RuntimeError (''File write error: '' @ msg)),
       w\<lparr>stdout := stdout w @ [''Generating to: '' @ p]\<rparr>)
    \<and> generate_rust_code (e\<lparr>write_file := \<lambda>q c. WriteFailed msg n\<rparr>) t p w =
      (Inl (RuntimeError (''File write error: '' @ msg)),
       w\<lparr>stdout := stdout w @ [''Generating to: '' @ p],
         files := (files w)(p \<mapsto> take n (rust_code t))\<rparr>)
    \<and> RuntimeError ''rustfmt formatting failed'' \<noteq> RuntimeError (''File write error: '' @ msg)"
proof -
  have a: "generate_rust_code e t p w =
      (Inl (RuntimeError ''rustfmt formatting failed''),
       w\<lparr>stdout := stdout w @ [''Generating to: '' @ p], files := fs\<rparr>)"
    using assms(2,3)
    by (simp add: generate_rust_code_Written [OF assms(1)] run_formatter_def)
  have b: "((files w)(p \<mapsto> rust_code t)) p = Some (rust_code t)"
    by simp
  have c: "generate_rust_code (e\<lparr>rustfmt := \<lambda>q fs'. Exited rc fs'\<rparr>) t p w =
      (Inl (RuntimeError ''rustfmt formatting failed''),
       w\<lparr>stdout := stdout w @ [''Generating to: '' @ p],
         files := (files w)(p \<mapsto> rust_code t)\<rparr>)"
    using assms(1,3) by (simp add: generate_rust_code_def run_formatter_def Let_def)
  have d: "generate_rust_code (e\<lparr>write_file := \<lambda>q c. OpenFailed msg\<rparr>) t p w =
      (Inl (RuntimeError (''File write error: '' @ msg)),
       w\<lparr>stdout := stdout w @ [''Generating to: '' @ p]\<rparr>)"
    by (simp add: generate_rust_code_def Let_def)
  have f: "generate_rust_code (e\<lparr>write_file := \<lambda>q c. WriteFailed msg n\<rparr>) t p w =
      (Inl (RuntimeError (''File write error: '' @ msg)),
       w\<lparr>stdout := stdout w @ [''Generating to: '' @ p],
         files := (files w)(p \<mapsto> take n (rust_code t))\<rparr>)"
    by (simp add: generate_rust_code_def Let_def)
  have g: "RuntimeError ''rustfmt formatting failed'' \<noteq> RuntimeError (''File write error: '' @ msg)"
    by simp
  from a b c d f g show ?thesis by (intro conjI)
qed

theorem formatter_failure_keeps_file_witness:
  \<open>write_file
      \<lparr>read_file = \<lambda>q. Missing, mkdir_error = \<lambda>q. None, write_file = \<lambda>q c. Written,
       rustfmt = \<lambda>q fs. Exited 1 fs\<rparr>
      ''out/riscv64.rs'' (rust_code ''("read", 0),'') = Written
   \<and> rustfmt
      \<lparr>read_file = \<lambda>q. Missing, mkdir_error = \<lambda>q. None, write_file = \<lambda>q c. Written,
       rustfmt = \<lambda>q fs. Exited 1 fs\<rparr>
      ''out/riscv64.rs''
      ((files \<lparr>files = Map.empty, stdout = []\<rparr>)(''out/riscv64.rs'' \<mapsto> rust_code ''("read", 0),''))
     = Exited 1 ((files \<lparr>files = Map.empty, stdout = []\<rparr>)(''out/riscv64.rs'' \<mapsto> rust_code ''("read", 0),''))
   \<and> (1 :: int) \<noteq> 0
   \<and> generate_rust_code
      \<lparr>read_file = \<lambda>q. Missing, mkdir_error = \<lambda>q. None, write_file = \<lambda>q c. Written,
       rustfmt = \<lambda>q fs. Exited 1 fs\<rparr>
      ''("read", 0),'' ''out/riscv64.rs'' \<lparr>files = Map.empty, stdout = []\<rparr>
     = (Inl (RuntimeError ''rustfmt formatting failed''),
        \<lparr>files = Map.empty, stdout = []\<rparr>
          \<lparr>stdout := stdout \<lparr>files = Map.empty, stdout = []\<rparr> @ [''Generating to: '' @ ''out/riscv64.rs''],
           files := (files \<lparr>files = Map.empty, stdout = []\<rparr>)(''out/riscv64.rs'' \<mapsto> rust_code ''("read", 0),'')\<rparr>)
   \<and> files (snd (generate_rust_code
      \<lparr>read_file = \<lambda>q. Missing, mkdir_error = \<lambda>q. None, write_file = \<lambda>q c. Written,
       rustfmt = \<lambda>q fs. Exited 1 fs\<rparr>
      ''("read", 0),'' ''out/riscv64.rs'' \<lparr>files = Map.empty, stdout = []\<rparr>)) ''out/riscv64.rs''
     = Some (rust_code ''("read", 0),'')\<close>
proof -
  have h1: \<open>write_file
      \<lparr>read_file = \<lambda>q. Missing, mkdir_error = \<lambda>q. None, write_file = \<lambda>q c. Written,
       rustfmt = \<lambda>q fs. Exited 1 fs\<rparr>
      ''out/riscv64.rs'' (rust_code ''("read", 0),'') = Written\<close>
    by (simp only: env.select_convs)
  have h2: \<open>rustfmt
      \<lparr>read_file = \<lambda>q. Missing, mkdir_error = \<lambda>q. None, write_file = \<lambda>q c. Written,
       rustfmt = \<lambda>q fs. Exited 1 fs\<rparr>
      ''out/riscv64.rs''
      ((files \<lparr>files = Map.empty, stdout = []\<rparr>)(''out/riscv64.rs'' \<mapsto> rust_code ''("read", 0),''))
     = Exited 1 ((files \<lparr>files = Map.empty, stdout = []\<rparr>)(''out/riscv64.rs'' \<mapsto> rust_code ''("read", 0),''))\<close>
    by (simp only: env.select_convs)
  have h3: "(1 :: int) \<noteq> 0"
    by (rule one_neq_zero)
  note t = formatter_failure_keeps_file [OF h1 h2 h3, THEN conjunct1]
  have u: \<open>files (snd (generate_rust_code
      \<lparr>read_file = \<lambda>q. Missing, mkdir_error = \<lambda>q. None, write_file = \<lambda>q c. Written,
       rustfmt = \<lambda>q fs. Exited 1 fs\<rparr>
      ''("read", 0),'' ''out/riscv64.rs'' \<lparr>files = Map.empty, stdout = []\<rparr>)) ''out/riscv64.rs''
     = Some (rust_code ''("read", 0),'')\<close>
    unfolding t by (simp only: snd_conv world.simps fun_upd_same)
  from h1 h2 h3 t u show ?thesis by (intro conjI)
qed

text \<open>
  C7. A line that, after trimming, does not begin with \<open>#define __NR_\<close> leaves the
  state of the loop as it is: no entry is added, the pattern is not tested (the counter
  of pattern tests stays), and no exception is raised. Such a line anywhere in a file
  changes neither the entries nor the result of \<open>generate_syscall_table\<close>.
\<close>

theorem unprefixed_lines_ignored:
  assumes "\<not> startswith (strip raw) ''#define __NR_''"
  shows "loop_body st raw = Inr st
    \<and> line_entries raw = [] \<and> line_error raw = None
    \<and> scan_lines (before @ raw # after) = scan_lines (before @ after)
    \<and> generate_syscall_table (\<lambda>p. Readable (before @ raw # after) failure) path
        = generate_syscall_table (\<lambda>p. Readable (before @ after) failure) path"
proof -
  have a: "loop_body st raw = Inr st" for st
    using assms by (rule line_unprefixed)
  have b: "scan_from st (before @ raw # after) = scan_from st (before @ after)" for st
    by (simp add: scan_from_append a split: sum.split)
  have c: "scan_lines (before @ raw # after) = scan_lines (before @ after)"
    unfolding scan_lines_def by (rule b)
  show ?thesis
    using assms by (simp add: a c line_unprefixed generate_syscall_table_def)
qed

theorem unprefixed_lines_ignored_witness:
  "\<not> startswith (strip ''#define __NR3264_fcntl 25\<newline>'') ''#define __NR_''
   \<and> loop_body \<lparr>syscalls = [(''read'', 0)], match_calls = 1\<rparr> ''#define __NR3264_fcntl 25\<newline>''
       = Inr \<lparr>syscalls = [(''read'', 0)], match_calls = 1\<rparr>
   \<and> scan_lines ([''#define __NR_read 0\<newline>''] @ ''#define __NR3264_fcntl 25\<newline>'' # [''\<newline>''])
       = scan_lines ([''#define __NR_read 0\<newline>''] @ [''\<newline>''])"
proof -
  have h: "\<not> startswith (strip ''#define __NR3264_fcntl 25\<newline>'') ''#define __NR_''"
    by code_simp
  note t = unprefixed_lines_ignored [OF h, of "\<lparr>syscalls = [(''read'', 0)], match_calls = 1\<rparr>"
        "[''#define __NR_read 0\<newline>'']" "[''\<newline>'']"]
  from h t show ?thesis by (simp only: simp_thms)
qed

text \<open>
  C8. Two runs on the same header content give the same result, whatever else differs
  in the file system and whatever the path is; and serializing a table that is already
  sorted gives the same string as serializing it unsorted.
\<close>

theorem table_deterministic:
  assumes "fs p = Readable ls failure" and "fs' p' = Readable ls failure"
  shows "generate_syscall_table fs p = generate_syscall_table fs' p'
    \<and> serialize (sort_syscalls xs) = serialize xs"
  using assms by (simp add: generate_syscall_table_def serialize_sorted)

theorem table_deterministic_witness:
  "generate_syscall_table (\<lambda>p. Readable [''#define __NR_read 0\<newline>''] None) ''a/unistd_64.h''
     = generate_syscall_table
         (\<lambda>p. if p = ''b/unistd_64.h'' then Readable [''#define __NR_read 0\<newline>''] None else Missing)
         ''b/unistd_64.h''"
proof -
  note t = table_deterministic [of "\<lambda>p. Readable [''#define __NR_read 0\<newline>''] None" "''a/unistd_64.h''"
      "[''#define __NR_read 0\<newline>'']" None
      "\<lambda>p. if p = ''b/unistd_64.h'' then Readable [''#define __NR_read 0\<newline>''] None else Missing"
      "''b/unistd_64.h''"]
  from t show ?thesis by (simp only: refl if_True simp_thms)
qed

text \<open>
  C9. The name of the emitted file comes from \<open>MAP_RUST_ARCH\<close>, while the header is
  looked up under the architecture as it was given: for \<open>riscv\<close> the header path
  ends in \<open>riscv_headers/include/asm/unistd_64.h\<close> and the code is written to
  \<open>riscv64.rs\<close> in the output directory; for \<open>arm64\<close> the file is
  \<open>aarch64.rs\<close> and for \<open>x86_64\<close> it is \<open>x86_64.rs\<close>. These three are the
  keys of the mapping. A run for \<open>riscv\<close> with the output directory \<open>out\<close>
  succeeds, prints the path \<open>out/riscv64.rs\<close> before and after, and leaves the code
  in that file and no file \<open>out/riscv.rs\<close>.
\<close>

theorem output_file_named_by_mapping:
  \<open>map_of MAP_RUST_ARCH ''riscv'' = Some ''riscv64''
   \<and> map_of MAP_RUST_ARCH ''arm64'' = Some ''aarch64''
   \<and> map_of MAP_RUST_ARCH ''x86_64'' = Some ''x86_64''
   \<and> map fst MAP_RUST_ARCH = [''arm64'', ''x86_64'', ''riscv'']
   \<and> generate_syscall_command e src ''riscv'' out w =
       (case generate_syscall_table (read_file e)
               (os_path_join (os_path_dirname src) ''riscv_headers/include/asm/unistd_64.h'') of
          Inl ex \<Rightarrow> (Inl ex, w)
        | Inr table \<Rightarrow>
            (case mkdir_error e out of
               Some msg \<Rightarrow> (Inl (OSError msg), w)
             | None \<Rightarrow> generate_rust_code e table (path_div out ''riscv64.rs'') w))
   \<and> generate_syscall_command e src ''arm64'' out w =
       (case generate_syscall_table (read_file e)
               (os_path_join (os_path_dirname src) ''arm64_headers/include/asm/unistd_64.h'') of
          Inl ex \<Rightarrow> (Inl ex, w)
        | Inr table \<Rightarrow>
            (case mkdir_error e out of
               Some msg \<Rightarrow> (Inl (OSError msg), w)
             | None \<Rightarrow> generate_rust_code e table (path_div out ''aarch64.rs'') w))
   \<and> generate_syscall_command e src ''x86_64'' out w =
       (case generate_syscall_table (read_file e)
               (os_path_join (os_path_dirname src) ''x86_64_headers/include/asm/unistd_64.h'') of
          Inl ex \<Rightarrow> (Inl ex, w)
        | Inr table \<Rightarrow>
            (case mkdir_error e out of
               Some msg \<Rightarrow> (Inl (OSError msg), w)
             | None \<Rightarrow> generate_rust_code e table (path_div out ''x86_64.rs'') w))
   \<and> (\<exists>d. path_div out ''riscv64.rs'' = d @ ''riscv64.rs'')
   \<and> path_div ''out'' ''riscv64.rs'' = ''out/riscv64.rs''
   \<and> os_path_join (os_path_dirname ''/tmp/linux-6.12.8/linux-6.12.8'')
        ''riscv_headers/include/asm/unistd_64.h''
       = ''/tmp/linux-6.12.8/riscv_headers/include/asm/unistd_64.h''
   \<and> fst (generate_syscall_command
        \<lparr>read_file = \<lambda>q. if q = ''/tmp/linux-6.12.8/riscv_headers/include/asm/unistd_64.h''
                            then Readable [''#define __NR_read 63\<newline>''] None else Missing,
         mkdir_error = \<lambda>q. None, write_file = \<lambda>q c. Written, rustfmt = \<lambda>q fs. Exited 0 fs\<rparr>
        ''/tmp/linux-6.12.8/linux-6.12.8'' ''riscv'' ''out'' \<lparr>files = Map.empty, stdout = []\<rparr>)
       = Inr ()
   \<and> stdout (snd (generate_syscall_command
        \<lparr>read_file = \<lambda>q. if q = ''/tmp/linux-6.12.8/riscv_headers/include/asm/unistd_64.h''
                            then Readable [''#define __NR_read 63\<newline>''] None else Missing,
         mkdir_error = \<lambda>q. None, write_file = \<lambda>q c. Written, rustfmt = \<lambda>q fs. Exited 0 fs\<rparr>
        ''/tmp/linux-6.12.8/linux-6.12.8'' ''riscv'' ''out'' \<lparr>files = Map.empty, stdout = []\<rparr>))
       = [''Generating to: out/riscv64.rs'', ''Generation succeeded: out/riscv64.rs'']
   \<and> files (snd (generate_syscall_command
        \<lparr>read_file = \<lambda>q. if q = ''/tmp/linux-6.12.8/riscv_headers/include/asm/unistd_64.h''
                            then Readable [''#define __NR_read 63\<newline>''] None else Missing,
         mkdir_error = \<lambda>q. None, write_file = \<lambda>q c. Written, rustfmt = \<lambda>q fs. Exited 0 fs\<rparr>
        ''/tmp/linux-6.12.8/linux-6.12.8'' ''riscv'' ''out'' \<lparr>files = Map.empty, stdout = []\<rparr>))
        ''out/riscv64.rs''
       = Some (rust_code ''("read", 63),'')
   \<and> files (snd (generate_syscall_command
        \<lparr>read_file = \<lambda>q. if q = ''/tmp/linux-6.12.8/riscv_headers/include/asm/unistd_64.h''
                            then Readable [''#define __NR_read 63\<newline>''] None else Missing,
         mkdir_error = \<lambda>q. None, write_file = \<lambda>q c. Written, rustfmt = \<lambda>q fs. Exited 0 fs\<rparr>
        ''/tmp/linux-6.12.8/linux-6.12.8'' ''riscv'' ''out'' \<lparr>files = Map.empty, stdout = []\<rparr>))
        ''out/riscv.rs''
       = None\<close>
proof -
  have m1: "map_of MAP_RUST_ARCH ''riscv'' = Some ''riscv64''"
    by (simp add: MAP_RUST_ARCH_def)
  have m2: "map_of MAP_RUST_ARCH ''arm64'' = Some ''aarch64''"
    by (simp add: MAP_RUST_ARCH_def)
  have m3: "map_of MAP_RUST_ARCH ''x86_64'' = Some ''x86_64''"
    by (simp add: MAP_RUST_ARCH_def)
  have m4: "map fst MAP_RUST_ARCH = [''arm64'', ''x86_64'', ''riscv'']"
    by (simp add: MAP_RUST_ARCH_def)
  have c1: "generate_syscall_command e src ''riscv'' out w =
       (case generate_syscall_table (read_file e)
               (os_path_join (os_path_dirname src) ''riscv_headers/include/asm/unistd_64.h'') of
          Inl ex \<Rightarrow> (Inl ex, w)
        | Inr table \<Rightarrow>
            (case mkdir_error e out of
               Some msg \<Rightarrow> (Inl (OSError msg), w)
             | None \<Rightarrow> generate_rust_code e table (path_div out ''riscv64.rs'') w))"
    by (rule generate_syscall_command_mapped [OF m1]) simp_all
  have c2: "generate_syscall_command e src ''arm64'' out w =
       (case generate_syscall_table (read_file e)
               (os_path_join (os_path_dirname src) ''arm64_headers/include/asm/unistd_64.h'') of
          Inl ex \<Rightarrow> (Inl ex, w)
        | Inr table \<Rightarrow>
            (case mkdir_error e out of
               Some msg \<Rightarrow> (Inl (OSError msg), w)
             | None \<Rightarrow> generate_rust_code e table (path_div out ''aarch64.rs'') w))"
    by (rule generate_syscall_command_mapped [OF m2]) simp_all
  have c3: "generate_syscall_command e src ''x86_64'' out w =
       (case generate_syscall_table (read_file e)
               (os_path_join (os_path_dirname src) ''x86_64_headers/include/asm/unistd_64.h'') of
          Inl ex \<Rightarrow> (Inl ex, w)
        | Inr table \<Rightarrow>
            (case mkdir_error e out of
               Some msg \<Rightarrow> (Inl (OSError msg), w)
             | None \<Rightarrow> generate_rust_code e table (path_div out ''x86_64.rs'') w))"
    by (rule generate_syscall_command_mapped [OF m3]) simp_all
  have p1: "\<exists>d. path_div out ''riscv64.rs'' = d @ ''riscv64.rs''"
    by (rule path_div_suffix)
  have p2: "path_div ''out'' ''riscv64.rs'' = ''out/riscv64.rs''"
    by code_simp
  have p3: "os_path_join (os_path_dirname ''/tmp/linux-6.12.8/linux-6.12.8'')
        ''riscv_headers/include/asm/unistd_64.h''
       = ''/tmp/linux-6.12.8/riscv_headers/include/asm/unistd_64.h''"
    by code_simp
  have r1: \<open>fst (generate_syscall_command
        \<lparr>read_file = \<lambda>q. if q = ''/tmp/linux-6.12.8/riscv_headers/include/asm/unistd_64.h''
                            then Readable [''#define __NR_read 63\<newline>''] None else Missing,
         mkdir_error = \<lambda>q. None, write_file = \<lambda>q c. Written, rustfmt = \<lambda>q fs. Exited 0 fs\<rparr>
        ''/tmp/linux-6.12.8/linux-6.12.8'' ''riscv'' ''out'' \<lparr>files = Map.empty, stdout = []\<rparr>)
       = Inr ()\<close>
    by code_simp
  have r2: \<open>stdout (snd (generate_syscall_command
        \<lparr>read_file = \<lambda>q. if q = ''/tmp/linux-6.12.8/riscv_headers/include/asm/unistd_64.h''
                            then Readable [''#define __NR_read 63\<newline>''] None else Missing,
         mkdir_error = \<lambda>q. None, write_file = \<lambda>q c. Written, rustfmt = \<lambda>q fs. Exited 0 fs\<rparr>
        ''/tmp/linux-6.12.8/linux-6.12.8'' ''riscv'' ''out'' \<lparr>files = Map.empty, stdout = []\<rparr>))
       = [''Generating to: out/riscv64.rs'', ''Generation succeeded: out/riscv64.rs'']\<close>
    by code_simp
  have r3: \<open>files (snd (generate_syscall_command
        \<lparr>read_file = \<lambda>q. if q = ''/tmp/linux-6.12.8/riscv_headers/include/asm/unistd_64.h''
                            then Readable [''#define __NR_read 63\<newline>''] None else Missing,
         mkdir_error = \<lambda>q. None, write_file = \<lambda>q c. Written, rustfmt = \<lambda>q fs. Exited 0 fs\<rparr>
        ''/tmp/linux-6.12.8/linux-6.12.8'' ''riscv'' ''out'' \<lparr>files = Map.empty, stdout = []\<rparr>))
        ''out/riscv64.rs''
       = Some (rust_code ''("read", 63),'')\<close>
    by code_simp
  have r4: \<open>files (snd (generate_syscall_command
        \<lparr>read_file = \<lambda>q. if q = ''/tmp/linux-6.12.8/riscv_headers/include/asm/unistd_64.h''
                            then Readable [''#define __NR_read 63\<newline>''] None else Missing,
         mkdir_error = \<lambda>q. None, write_file = \<lambda>q c. Written, rustfmt = \<lambda>q fs. Exited 0 fs\<rparr>
        ''/tmp/linux-6.12.8/linux-6.12.8'' ''riscv'' ''out'' \<lparr>files = Map.empty, stdout = []\<rparr>))
        ''out/riscv.rs''
       = None\<close>
    by code_simp
  from m1 m2 m3 m4 c1 c2 c3 p1 p2 p3 r1 r2 r3 r4 show ?thesis by (intro conjI)
qed

text \<open>
  C10. If a header parses and its entries have pairwise distinct names, then every
  permutation of its lines parses too and gives the same serialized string.
\<close>

theorem line_order_irrelevant:
  assumes "mset ls' = mset ls"
    and "scan_lines ls = Inr st"
    and "distinct (map fst (syscalls st))"
  shows "\<exists>st'. scan_lines ls' = Inr st'
    \<and> serialize (syscalls st') = serialize (syscalls st)
    \<and> generate_syscall_table (\<lambda>p. Readable ls' None) path = Inr (serialize (syscalls st))
    \<and> generate_syscall_table (\<lambda>p. Readable ls None) path = Inr (serialize (syscalls st))"
proof -
  have ok: "list_all (\<lambda>raw. line_error raw = None) ls"
    and s: "syscalls st = concat (map line_entries ls)"
    using assms(2) by (rule scan_lines_InrD)+
  have "set ls' = set ls" using assms(1) by (rule mset_eq_setD)
  with ok have ok': "list_all (\<lambda>raw. line_error raw = None) ls'"
    by (simp add: list_all_iff)
  define st' where "st' = \<lparr>syscalls = concat (map line_entries ls'),
    match_calls = length (filter (\<lambda>raw. startswith (strip raw) ''#define __NR_'') ls')\<rparr>"
  have r: "scan_lines ls' = Inr st'"
    unfolding st'_def using ok' by (rule scan_lines_ok)
  have "mset (concat (map line_entries ls')) = mset (concat (map line_entries ls))"
    using assms(1) by (rule mset_concat_map_cong)
  then have "mset (syscalls st') = mset (syscalls st)"
    by (simp add: st'_def s)
  then have "sort_syscalls (syscalls st') = sort_syscalls (syscalls st)"
    using assms(3) by (rule sort_syscalls_perm)
  then have e: "serialize (syscalls st') = serialize (syscalls st)"
    by (simp add: serialize_def)
  have g': "generate_syscall_table (\<lambda>p. Readable ls' None) path = Inr (serialize (syscalls st))"
    by (simp add: generate_syscall_table_def r e)
  have g: "generate_syscall_table (\<lambda>p. Readable ls None) path = Inr (serialize (syscalls st))"
    by (simp add: generate_syscall_table_def assms(2))
  from r e g' g show ?thesis by blast
qed

theorem line_order_irrelevant_witness:
  "mset [''#define __NR_open 2\<newline>'', ''// unistd\<newline>'', ''#define __NR_read 0\<newline>'']
     = mset [''#define __NR_read 0\<newline>'', ''#define __NR_open 2\<newline>'', ''// unistd\<newline>'']
   \<and> scan_lines [''#define __NR_read 0\<newline>'', ''#define __NR_open 2\<newline>'', ''// unistd\<newline>'']
     = Inr \<lparr>syscalls = [(''read'', 0), (''open'', 2)], match_calls = 2\<rparr>
   \<and> distinct (map fst (syscalls \<lparr>syscalls = [(''read'', 0), (''open'', 2)], match_calls = 2\<rparr>))
   \<and> (\<exists>st'. scan_lines [''#define __NR_open 2\<newline>'', ''// unistd\<newline>'', ''#define __NR_read 0\<newline>'']
          = Inr st'
        \<and> serialize (syscalls st')
          = serialize (syscalls \<lparr>syscalls = [(''read'', 0), (''open'', 2)], match_calls = 2\<rparr>)
        \<and> generate_syscall_table
            (\<lambda>p. Readable [''#define __NR_open 2\<newline>'', ''// unistd\<newline>'', ''#define __NR_read 0\<newline>''] None)
            ''unistd_64.h''
          = Inr (serialize (syscalls \<lparr>syscalls = [(''read'', 0), (''open'', 2)], match_calls = 2\<rparr>))
        \<and> generate_syscall_table
            (\<lambda>p. Readable [''#define __NR_read 0\<newline>'', ''#define __NR_open 2\<newline>'', ''// unistd\<newline>''] None)
            ''unistd_64.h''
          = Inr (serialize (syscalls \<lparr>syscalls = [(''read'', 0), (''open'', 2)], match_calls = 2\<rparr>)))"
proof -
  have h1: "mset [''#define __NR_open 2\<newline>'', ''// unistd\<newline>'', ''#define __NR_read 0\<newline>'']
     = mset [''#define __NR_read 0\<newline>'', ''#define __NR_open 2\<newline>'', ''// unistd\<newline>'']"
    by (simp only: mset.simps add_mset_commute)
  have h2: "scan_lines [''#define __NR_read 0\<newline>'', ''#define __NR_open 2\<newline>'', ''// unistd\<newline>'']
     = Inr \<lparr>syscalls = [(''read'', 0), (''open'', 2)], match_calls = 2\<rparr>"
    by code_simp
  have h3: "distinct (map fst (syscalls \<lparr>syscalls = [(''read'', 0), (''open'', 2)], match_calls = 2\<rparr>))"
    by code_simp
  note t = line_order_irrelevant [OF h1 h2 h3, of "''unistd_64.h''"]
  from h1 h2 h3 t show ?thesis by (intro conjI)
qed

end
